theory Spec2Isabelle
  imports Complex_Main
begin

section \<open>Recording format probe (video-recorder/utils/media-utils.ts)\<close>

text \<open>
  \<^verbatim>\<open>getSupportedMimeType\<close> walks a fixed list of container/codec strings and
  returns the first one that the browser's \<^verbatim>\<open>MediaRecorder.isTypeSupported\<close>
  accepts. The browser predicate is a parameter of the model.
\<close>

definition mimeTypes :: "string list" where
  "mimeTypes =
     [''video/webm;codecs=vp9,opus'',
      ''video/webm;codecs=vp8,opus'',
      ''video/webm;codecs=h264,opus'',
      ''video/mp4;codecs=h264,aac'',
      ''video/webm'',
      ''video/mp4'']"

text \<open>The \<^verbatim>\<open>for (const type of mimeTypes)\<close> loop with its early return.\<close>

fun probe :: "(string \<Rightarrow> bool) \<Rightarrow> string list \<Rightarrow> string option" where
  "probe isTypeSupported [] = None"
| "probe isTypeSupported (t # ts) =
     (if isTypeSupported t then Some t else probe isTypeSupported ts)"

definition getSupportedMimeType :: "(string \<Rightarrow> bool) \<Rightarrow> string" where
  "getSupportedMimeType isTypeSupported =
     (case probe isTypeSupported mimeTypes of
        Some t \<Rightarrow> t
      | None \<Rightarrow> ''video/webm'')"

section \<open>JavaScript Numbers\<close>

text \<open>
  A Number is an IEEE 754 double. Every finite double is a rational, so the
  model computes on \<^typ>\<open>rat\<close> and rounds the exact result of every
  arithmetic operation to the nearest double, ties to the even significand,
  as the language prescribes. The significand has 53 bits; the range of the
  exponent is not limited here, so the model agrees with the language on
  every value whose magnitude lies between \<open>2 ^ -1022\<close> and \<open>2 ^ 1024\<close>
  (no overflow to Infinity, no subnormal numbers).
\<close>

text \<open>The number of binary digits of a positive integer.\<close>

function bit_length :: "int \<Rightarrow> nat" where
  "bit_length n = (if n \<le> 0 then 0 else Suc (bit_length (n div 2)))"
  by pat_completeness auto
termination
  by (relation "measure nat") auto

declare bit_length.simps [simp del]

text \<open>For positive \<open>x\<close>, the exponent \<open>e\<close> with \<open>2 ^ e \<le> x < 2 ^ (e + 1)\<close>.\<close>

definition binary_exponent :: "rat \<Rightarrow> int" where
  "binary_exponent x =
     (let (a, b) = quotient_of x;
          c = int (bit_length a) - int (bit_length b)
      in if power_int 2 c \<le> x then c else c - 1)"

definition round_half_even :: "rat \<Rightarrow> int" where
  "round_half_even y =
     (let f = \<lfloor>y\<rfloor>; r = y - of_int f
      in if r < 1 / 2 then f
         else if 1 / 2 < r then f + 1
         else if even f then f else f + 1)"

definition round_positive :: "rat \<Rightarrow> rat" where
  "round_positive x =
     (let ulp = power_int 2 (binary_exponent x - 52)
      in of_int (round_half_even (x / ulp)) * ulp)"

definition to_double :: "rat \<Rightarrow> rat" where
  "to_double x =
     (if x = 0 then 0
      else if x < 0 then - round_positive (- x)
      else round_positive x)"



definition number_div :: "rat \<Rightarrow> rat \<Rightarrow> rat" where
  "number_div x y = to_double (x / y)"

text \<open>An integer that is a Number, that is, one that a double holds exactly.\<close>

definition is_number :: "nat \<Rightarrow> bool" where
  "is_number n = (to_double (of_nat n) = of_nat n)"

section \<open>Duration display (video-recorder/utils/media-utils.ts)\<close>

text \<open>
  \<^verbatim>\<open>formatTime(seconds)\<close> is applied to the whole number of elapsed seconds;
  the argument of the model is a non-negative integer that is a Number.
  \<^verbatim>\<open>seconds / 60\<close> is a division of doubles, \<^verbatim>\<open>Math.floor\<close> and
  \<^verbatim>\<open>%\<close> are exact. \<^verbatim>\<open>String.prototype.padStart\<close> prepends the (repeated,
  truncated) pad string when the text is shorter than the target length.
\<close>

definition digit_char :: "nat \<Rightarrow> char" where
  "digit_char d = char_of (48 + d)"

text \<open>The decimal digits of a natural number.\<close>

fun toString :: "nat \<Rightarrow> string" where
  "toString n = (if n < 10 then [digit_char n] else toString (n div 10) @ [digit_char (n mod 10)])"

declare toString.simps [simp del]

text \<open>
  \<^verbatim>\<open>Number.prototype.toString\<close> of a non-negative integer-valued Number.
  Below \<open>2 ^ 53\<close> the result is the decimal digits of the integer. From
  \<open>2 ^ 53\<close> on the engine prints the shortest digits that identify the
  double, padded with zeros, and switches to exponent notation at
  \<open>10 ^ 21\<close>; that rendering is the parameter \<open>large\<close>.
\<close>

definition numberToString :: "(nat \<Rightarrow> string) \<Rightarrow> nat \<Rightarrow> string" where
  "numberToString large n = (if n < 2 ^ 53 then toString n else large n)"

definition padStart :: "nat \<Rightarrow> string \<Rightarrow> string \<Rightarrow> string" where
  "padStart targetLength padString s =
     (if targetLength \<le> length s \<or> padString = [] then s
      else take (targetLength - length s)
             (concat (replicate (targetLength - length s) padString)) @ s)"

definition formatTime :: "(nat \<Rightarrow> string) \<Rightarrow> nat \<Rightarrow> string" where
  "formatTime large seconds =
     (let mins = nat \<lfloor>number_div (of_nat seconds) 60\<rfloor>;
          secs = seconds mod 60
      in padStart 2 ''0'' (numberToString large mins) @ '':''
         @ padStart 2 ''0'' (numberToString large secs))"

section \<open>Media error messages (video-recorder/utils/error-handler.ts)\<close>

text \<open>
  \<^verbatim>\<open>handleMediaError(error: any, context = 'media')\<close> receives an arbitrary
  JavaScript value. The model keeps the distinctions the function makes: a
  \<^verbatim>\<open>DOMException\<close> with its name, a primitive string, any other object with its
  \<^verbatim>\<open>message\<close> property (absent or any value), and the remaining primitives.
  The value returned in the \<^verbatim>\<open>error.message\<close> branch is whatever the property
  holds, so the result is a JavaScript value as well.
\<close>

datatype js_value =
    JUndefined
  | JNull
  | JBool bool
  | JNumber int
  | JString string
  | JDOMException string
  | JObject "js_value option"

text \<open>JavaScript truthiness, as used by \<^verbatim>\<open>error && error.message\<close>.\<close>

fun truthy :: "js_value \<Rightarrow> bool" where
  "truthy JUndefined = False"
| "truthy JNull = False"
| "truthy (JBool b) = b"
| "truthy (JNumber n) = (n \<noteq> 0)"
| "truthy (JString s) = (s \<noteq> [])"
| "truthy (JDOMException n) = True"
| "truthy (JObject m) = True"

text \<open>The \<^verbatim>\<open>switch (error.name)\<close> of the \<^verbatim>\<open>DOMException\<close> branch.\<close>

definition domExceptionMessage :: "string \<Rightarrow> string" where
  "domExceptionMessage name =
     (if name = ''NotFoundError'' then
        ''Camera or microphone not found. Please connect a device and try again.''
      else if name = ''NotAllowedError'' \<or> name = ''PermissionDeniedError'' then
        ''Permission denied. Please allow access to your camera and microphone.''
      else if name = ''OverconstrainedError'' then
        ''Your device does not meet the required constraints. Try a different device.''
      else if name = ''NotReadableError'' \<or> name = ''AbortError'' then
        ''Could not access your camera or microphone. Please check if another application is using them.''
      else if name = ''SecurityError'' then
        ''Security error. Media access is not allowed in this context.''
      else ''Media error: '' @ name @ ''. Please try again.'')"

text \<open>
  The second argument is optional; \<open>None\<close> stands for an omitted (or
  \<^verbatim>\<open>undefined\<close>) argument, which takes the default \<^verbatim>\<open>'media'\<close>.
\<close>

fun handleMediaError :: "js_value \<Rightarrow> string option \<Rightarrow> js_value" where
  "handleMediaError (JDOMException name) ctx = JString (domExceptionMessage name)"
| "handleMediaError (JString s) ctx = JString s"
| "handleMediaError (JObject (Some m)) ctx =
     (if truthy m then m
      else JString (''Unknown error during '' @ (case ctx of None \<Rightarrow> ''media'' | Some c \<Rightarrow> c)
                     @ ''. Please try again.''))"
| "handleMediaError error ctx =
     JString (''Unknown error during '' @ (case ctx of None \<Rightarrow> ''media'' | Some c \<Rightarrow> c)
               @ ''. Please try again.'')"

text \<open>The result is a string with at least one character.\<close>

fun nonempty_string :: "js_value \<Rightarrow> bool" where
  "nonempty_string (JString s) = (s \<noteq> [])"
| "nonempty_string v = False"

section \<open>Download file names\<close>

text \<open>
  Four download handlers name the file after the clock, which each reads
  through \<^verbatim>\<open>new Date().toISOString()\<close>; the resulting ISO-8601 text is the
  parameter \<open>isoString\<close>. A fifth download is a plain link with a fixed
  name. A handler that returns without offering a file yields \<open>None\<close>.
  A URL or blob that is \<^verbatim>\<open>null\<close> is \<open>None\<close>; the empty URL string is
  falsy as well.
\<close>

definition falsy_url :: "string option \<Rightarrow> bool" where
  "falsy_url videoUrl = (videoUrl = None \<or> videoUrl = Some [])"

text \<open>\<^verbatim>\<open>.slice(0, 19).replace(/:/g, '-')\<close>\<close>

definition slice_0_19 :: "string \<Rightarrow> string" where
  "slice_0_19 s = take 19 s"

definition replace_colons :: "string \<Rightarrow> string" where
  "replace_colons s = map (\<lambda>c. if c = CHR '':'' then CHR ''-'' else c) s"

text \<open>
  \<^verbatim>\<open>downloadVideo\<close> of the download utilities, called by the
  \<^verbatim>\<open>VideoRecorder\<close> components. An exception raised while the blob and the link
  are built (\<open>failure\<close>, with its message) is caught and reported through
  \<^verbatim>\<open>setError\<close>; the result is then \<open>Inl\<close> of the reported text.
\<close>

definition utils_downloadVideo ::
  "string option \<Rightarrow> 'blob list \<Rightarrow> string option \<Rightarrow> string \<Rightarrow> string + string" where
  "utils_downloadVideo videoUrl recordedChunks failure isoString =
     (if falsy_url videoUrl \<or> recordedChunks = [] then Inl ''No video data available to download''
      else case failure of
             Some msg \<Rightarrow> Inl (''Error downloading video: '' @ msg)
           | None \<Rightarrow> Inr (''recording_'' @ isoString @ ''.webm''))"

text \<open>\<^verbatim>\<open>handleDownload\<close> of video-recorder/VideoPlayer.tsx.\<close>

definition player_handleDownload :: "string option \<Rightarrow> string \<Rightarrow> string option" where
  "player_handleDownload videoUrl isoString =
     (if falsy_url videoUrl then None
      else Some (''recording-'' @ replace_colons (slice_0_19 isoString) @ ''.webm''))"

text \<open>\<^verbatim>\<open>downloadVideo\<close> of the hook-based \<^verbatim>\<open>VideoRecorder\<close>.\<close>

definition recorder_downloadVideo :: "'blob option \<Rightarrow> string \<Rightarrow> string option" where
  "recorder_downloadVideo videoBlob isoString =
     (if videoBlob = None then None
      else Some (''recording-'' @ replace_colons (slice_0_19 isoString) @ ''.webm''))"

text \<open>\<^verbatim>\<open>handleDownload\<close> of video-recorder/components/VideoPlayer.tsx.\<close>

definition component_handleDownload ::
  "string option \<Rightarrow> 'blob option \<Rightarrow> string \<Rightarrow> string option" where
  "component_handleDownload videoUrl videoBlob isoString =
     (if falsy_url videoUrl \<or> videoBlob = None then None
      else Some (''recording-'' @ isoString @ ''.webm''))"

text \<open>
  The link under the recording preview of the \<^verbatim>\<open>VideoRecorder\<close> components,
  rendered as \<^verbatim>\<open>{videoUrl && <a href={videoUrl} download="screen_recording.webm">}\<close>.
\<close>

definition preview_download_link :: "string option \<Rightarrow> string option" where
  "preview_download_link videoUrl =
     (if falsy_url videoUrl then None else Some ''screen_recording.webm'')"

section \<open>Window globals (video-recorder/types/window-fix.ts)\<close>

datatype track_kind = Audio | Video

record MediaStreamTrack =
  kind :: track_kind
  label :: string
  enabled :: bool

type_synonym MediaStream = "MediaStreamTrack list"

definition getAudioTracks :: "MediaStream \<Rightarrow> MediaStreamTrack list" where
  "getAudioTracks stream = filter (\<lambda>t. kind t = Audio) stream"

definition getVideoTracks :: "MediaStream \<Rightarrow> MediaStreamTrack list" where
  "getVideoTracks stream = filter (\<lambda>t. kind t = Video) stream"

text \<open>
  The properties of \<^verbatim>\<open>window\<close> that the modelled functions touch; \<open>None\<close>
  is \<^verbatim>\<open>undefined\<close> (or \<^verbatim>\<open>null\<close> for the stream).
\<close>

record window_globals =
  directAudioStream :: "MediaStream option"
  audioTracksAdded :: "nat option"
  lastViewMode :: "string option"





section \<open>Direct audio stream (video-recorder/utils/media-utils.ts)\<close>


text \<open>\<^verbatim>\<open>getAudioTracks().forEach(track => { track.enabled = true })\<close>\<close>

definition enableAudioTracks :: "MediaStream \<Rightarrow> MediaStream" where
  "enableAudioTracks stream =
     map (\<lambda>t. if kind t = Audio then t\<lparr>enabled := True\<rparr> else t) stream"






section \<open>View mode (hook-based VideoRecorder and its types)\<close>

datatype ViewMode = Full | Split | Circle | Tutorial

text \<open>The string each member of the union type is at run time.\<close>

fun viewModeString :: "ViewMode \<Rightarrow> string" where
  "viewModeString Full = ''full''"
| "viewModeString Split = ''split''"
| "viewModeString Circle = ''circle''"
| "viewModeString Tutorial = ''tutorial''"

text \<open>
  The union of the two declarations of \<^verbatim>\<open>RecordingState\<close> found in the
  repository: one adds \<^verbatim>\<open>'processing'\<close>, the other \<^verbatim>\<open>'completed'\<close>.
\<close>

datatype RecordingState = Idle | Recording | Paused | Processing | Completed

record view_state =
  viewMode :: ViewMode
  lastViewChange :: string
  cleanupStreamsCalls :: nat

definition initial_view_state :: "string \<Rightarrow> view_state" where
  "initial_view_state now = \<lparr>viewMode = Full, lastViewChange = now, cleanupStreamsCalls = 0\<rparr>"

text \<open>
  \<^verbatim>\<open>changeViewMode(newMode)\<close>: \<open>rs\<close> is the recording state the component
  rendered with and \<open>now\<close> the clock reading. The stream initialisation that
  the function defers with \<^verbatim>\<open>setTimeout\<close> touches neither the view mode nor
  the global and is left out.
\<close>

definition changeViewMode ::
  "RecordingState \<Rightarrow> string \<Rightarrow> ViewMode \<Rightarrow> view_state \<times> window_globals
     \<Rightarrow> view_state \<times> window_globals" where
  "changeViewMode rs now newMode sw =
     (let (st, w) = sw in
      if newMode = viewMode st then (st, w)
      else
        let st1 = st\<lparr>viewMode := newMode, lastViewChange := now\<rparr>;
            w1 = w\<lparr>lastViewMode := Some (viewModeString newMode)\<rparr>;
            isActiveRecording = (rs = Recording \<or> rs = Paused);
            st2 = (if \<not> isActiveRecording
                   then st1\<lparr>cleanupStreamsCalls := cleanupStreamsCalls st1 + 1\<rparr>
                   else st1)
        in (st2, w1))"

text \<open>
  The four view buttons; a click carries the recording state and the clock
  reading of the moment.
\<close>

record view_click =
  click_mode :: ViewMode
  click_recordingState :: RecordingState
  click_time :: string

fun view_clicks :: "view_click list \<Rightarrow> view_state \<times> window_globals \<Rightarrow> view_state \<times> window_globals" where
  "view_clicks [] sw = sw"
| "view_clicks (c # cs) sw =
     view_clicks cs (changeViewMode (click_recordingState c) (click_time c) (click_mode c) sw)"

section \<open>Teleprompter scrolling (video-recorder/components/Teleprompter.tsx)\<close>

text \<open>
  The scroll position is a Number. \<open>dims\<close> holds \<^verbatim>\<open>scrollHeight\<close> of the
  content element and \<^verbatim>\<open>clientHeight\<close> of the container element when both
  refs are attached, and is \<open>None\<close> otherwise; the two are integers and
  belong to different elements, so their difference can be negative.
\<close>

record teleprompter_state =
  position :: rat
  isScrolling :: bool
  speed :: int















section \<open>Recording state machines\<close>

text \<open>
  Every recorder keeps \<^verbatim>\<open>recordingState\<close> in React state, initially
  \<^verbatim>\<open>'idle'\<close>. Each operation is modelled by the list of values it passes to
  \<^verbatim>\<open>setRecordingState\<close>, in order, including the calls made after an
  \<^verbatim>\<open>await\<close>, in a timer callback or in the recorder's \<^verbatim>\<open>onstop\<close> handler.
  What the host does (a stream is missing, a call throws) is given by the
  event.
\<close>

subsection \<open>The useRecording hook (video-recorder/hooks/useRecording.ts)\<close>

record hook_start_env =
  canvasStream_present :: bool
  directAudioStream_present :: bool
  getUserMedia_resolves :: bool
  initialize_resolves :: bool

definition hook_startRecording :: "hook_start_env \<Rightarrow> RecordingState list" where
  "hook_startRecording env =
     (if \<not> canvasStream_present env then [Idle]
      else if \<not> (directAudioStream_present env \<or> getUserMedia_resolves env) then [Processing, Idle]
      else if \<not> initialize_resolves env then [Processing, Idle]
      else [Processing, Recording])"

record hook_stop_env =
  recordRTC_present :: bool
  stop_resolves :: bool

definition hook_stopRecording :: "hook_stop_env \<Rightarrow> RecordingState list" where
  "hook_stopRecording env =
     (if \<not> recordRTC_present env then [Processing, Idle]
      else if \<not> stop_resolves env then [Processing, Idle]
      else [Processing, Idle])"

definition hook_pauseRecording :: "RecordingState list" where
  "hook_pauseRecording = [Paused]"

definition hook_resumeRecording :: "RecordingState list" where
  "hook_resumeRecording = [Recording]"

datatype hook_event =
    HookStart hook_start_env
  | HookStop hook_stop_env
  | HookPause
  | HookResume
  | HookPauseButton

text \<open>
  The hook exports \<^verbatim>\<open>pauseRecording\<close> as
  \<^verbatim>\<open>recordingState === 'recording' ? pauseRecording : resumeRecording\<close>;
  \<open>HookPauseButton\<close> is a call of that exported function.
\<close>

fun hook_writes :: "RecordingState \<Rightarrow> hook_event \<Rightarrow> RecordingState list" where
  "hook_writes rs (HookStart env) = hook_startRecording env"
| "hook_writes rs (HookStop env) = hook_stopRecording env"
| "hook_writes rs HookPause = hook_pauseRecording"
| "hook_writes rs HookResume = hook_resumeRecording"
| "hook_writes rs HookPauseButton =
     (if rs = Recording then hook_pauseRecording else hook_resumeRecording)"

subsection \<open>The VideoRecorder components\<close>

text \<open>
  Four versions of the component drive a \<^verbatim>\<open>MediaRecorder\<close> directly. An
  operation depends on whether the camera stream and the recorder exist,
  whether a 2D context could be created and whether a host call throws.
\<close>

record component_env =
  stream_present :: bool
  recorder_present :: bool
  context_created :: bool
  host_throws :: bool

datatype component_event =
    StartRecording component_env
  | PauseRecording component_env
  | StopRecording component_env

text \<open>\<^verbatim>\<open>pauseRecording\<close> is the same in the four versions.\<close>

definition component_pauseRecording :: "RecordingState \<Rightarrow> component_env \<Rightarrow> RecordingState list" where
  "component_pauseRecording rs env =
     (if recorder_present env \<and> rs = Recording
      then (if host_throws env then [] else [Paused])
      else [])"

text \<open>First version in components/VideoRecorder.tsx (canvas compositing).\<close>

fun canvas_component_writes :: "RecordingState \<Rightarrow> component_event \<Rightarrow> RecordingState list" where
  "canvas_component_writes rs (StartRecording env) =
     (if \<not> stream_present env then []
      else if \<not> context_created env then []
      else if host_throws env then []
      else [Recording])"
| "canvas_component_writes rs (PauseRecording env) = component_pauseRecording rs env"
| "canvas_component_writes rs (StopRecording env) =
     (if \<not> recorder_present env then []
      else if host_throws env then []
      else [Idle])"

text \<open>Second version in components/VideoRecorder.tsx (camera stream recorded directly).\<close>

fun camera_component_writes :: "RecordingState \<Rightarrow> component_event \<Rightarrow> RecordingState list" where
  "camera_component_writes rs (StartRecording env) =
     (if \<not> stream_present env then []
      else if \<not> recorder_present env then []
      else if host_throws env then []
      else [Recording])"
| "camera_component_writes rs (PauseRecording env) = component_pauseRecording rs env"
| "camera_component_writes rs (StopRecording env) =
     (if \<not> recorder_present env \<or> rs = Idle then []
      else if host_throws env then []
      else [Idle])"

text \<open>
  Version with stream re-connection before recording: a failed start resets
  the state, and the state returns to idle in the recorder's
  \<^verbatim>\<open>onstop\<close> handler.
\<close>

fun reconnecting_component_writes :: "RecordingState \<Rightarrow> component_event \<Rightarrow> RecordingState list" where
  "reconnecting_component_writes rs (StartRecording env) =
     (if host_throws env then [Idle] else [Recording])"
| "reconnecting_component_writes rs (PauseRecording env) = component_pauseRecording rs env"
| "reconnecting_component_writes rs (StopRecording env) =
     (if recorder_present env \<and> rs = Recording
      then (if host_throws env then [] else [Idle])
      else [])"

text \<open>
  Version that stops from a timer callback: the callback sets idle, and so
  does the \<^verbatim>\<open>onstop\<close> handler that the stop triggers.
\<close>

fun timed_component_writes :: "RecordingState \<Rightarrow> component_event \<Rightarrow> RecordingState list" where
  "timed_component_writes rs (StartRecording env) =
     (if host_throws env then [] else [Recording])"
| "timed_component_writes rs (PauseRecording env) = component_pauseRecording rs env"
| "timed_component_writes rs (StopRecording env) =
     (if recorder_present env \<and> rs = Recording
      then (if host_throws env then [] else [Idle, Idle])
      else [])"

subsection \<open>Running a machine\<close>

text \<open>
  The values the state takes over a sequence of events, the initial value
  first. An operation that writes nothing leaves the state as it is.
\<close>

fun state_writes ::
  "(RecordingState \<Rightarrow> 'e \<Rightarrow> RecordingState list) \<Rightarrow> RecordingState \<Rightarrow> 'e list \<Rightarrow> RecordingState list" where
  "state_writes writes rs [] = []"
| "state_writes writes rs (e # es) =
     writes rs e @ state_writes writes (last (rs # writes rs e)) es"

definition state_history ::
  "(RecordingState \<Rightarrow> 'e \<Rightarrow> RecordingState list) \<Rightarrow> 'e list \<Rightarrow> RecordingState list" where
  "state_history writes es = Idle # state_writes writes Idle es"

section \<open>Script-generation form (components/media_player.tsx, ScriptForm)\<close>

text \<open>
  Text typed by the user and text sent by the server is arbitrary, so the
  strings of the form are lists of UTF-16 code units, as JavaScript has
  them. \<open>lit\<close> embeds an ASCII literal.
\<close>

type_synonym jsstring = "nat list"

definition lit :: "string \<Rightarrow> jsstring" where
  "lit s = map of_char s"

text \<open>
  The code units removed by \<^verbatim>\<open>String.prototype.trim\<close>: ECMAScript white
  space and line terminators.
\<close>

definition isWhiteSpace :: "nat \<Rightarrow> bool" where
  "isWhiteSpace c =
     (c \<in> {0x09, 0x0A, 0x0B, 0x0C, 0x0D, 0x20, 0xA0, 0x1680, 0x2028, 0x2029, 0x202F,
            0x205F, 0x3000, 0xFEFF} \<or> (0x2000 \<le> c \<and> c \<le> 0x200A))"

definition trim :: "jsstring \<Rightarrow> jsstring" where
  "trim s = rev (dropWhile isWhiteSpace (rev (dropWhile isWhiteSpace s)))"

record ScriptFormData =
  topicTitle :: jsstring
  seoKeyword :: jsstring
  creatorInfo :: jsstring

text \<open>
  The state of the form, together with the number of ten-second timers of
  \<^verbatim>\<open>handleSubmit\<close> that are armed. The content fields hold whatever the
  response carried; a property that the response lacks is \<^verbatim>\<open>undefined\<close>,
  here \<open>None\<close>.
\<close>

record form_state =
  formData :: ScriptFormData
  generatedScript :: "jsstring option"
  editableScript :: "jsstring option"
  youtubeDescription :: "jsstring option"
  editableDescription :: "jsstring option"
  youtubeTags :: "jsstring option"
  editableTags :: "jsstring option"
  isLoading :: bool
  errorMessage :: jsstring
  armedTimeouts :: nat

definition initial_form :: form_state where
  "initial_form =
     \<lparr>formData = \<lparr>topicTitle = [], seoKeyword = [], creatorInfo = []\<rparr>,
      generatedScript = Some [], editableScript = Some [],
      youtubeDescription = Some [], editableDescription = Some [],
      youtubeTags = Some [], editableTags = Some [],
      isLoading = False, errorMessage = [], armedTimeouts = 0\<rparr>"

text \<open>The request handed to \<^verbatim>\<open>fetch\<close>; the body lists the properties that
  \<^verbatim>\<open>JSON.stringify(formData)\<close> writes, in order.\<close>

record http_request =
  request_url :: string
  request_method :: string
  request_contentType :: string
  request_body :: "(string \<times> jsstring) list"

definition stringify_formData :: "ScriptFormData \<Rightarrow> (string \<times> jsstring) list" where
  "stringify_formData fd =
     [(''topicTitle'', topicTitle fd), (''seoKeyword'', seoKeyword fd), (''creatorInfo'', creatorInfo fd)]"

definition generate_request :: "ScriptFormData \<Rightarrow> http_request" where
  "generate_request fd =
     \<lparr>request_url = ''http://localhost:5000/generate-content'',
      request_method = ''POST'',
      request_contentType = ''application/json'',
      request_body = stringify_formData fd\<rparr>"

text \<open>The properties of the parsed response that the form reads.\<close>

record response_data =
  data_script :: "jsstring option"
  data_description :: "jsstring option"
  data_tags :: "jsstring option"
  data_error :: "jsstring option"

text \<open>
  What \<^verbatim>\<open>response.json()\<close> gives: a rejection (the body is not JSON, with the
  message of the error), the value \<^verbatim>\<open>null\<close> (reading a property of it throws
  a \<^verbatim>\<open>TypeError\<close>, whose message is recorded), or a value with properties.
\<close>

datatype response_body =
    NotJson jsstring
  | JsonNull jsstring
  | JsonData response_data

text \<open>
  What \<^verbatim>\<open>fetch\<close> gives: a rejection (\<open>Some\<close> message when the thrown value
  is an \<^verbatim>\<open>Error\<close>, \<open>None\<close> otherwise) or a response with its status.
\<close>

datatype fetch_outcome =
    FetchRejected "jsstring option"
  | FetchResponse nat response_body

definition response_ok :: "nat \<Rightarrow> bool" where
  "response_ok status = (200 \<le> status \<and> status \<le> 299)"

text \<open>\<^verbatim>\<open>data.error || `Server error: ${response.status}`\<close>\<close>

definition server_error_text :: "response_data \<Rightarrow> nat \<Rightarrow> jsstring" where
  "server_error_text d status =
     (case data_error d of
        Some e \<Rightarrow> if e = [] then lit (''Server error: '' @ toString status) else e
      | None \<Rightarrow> lit (''Server error: '' @ toString status))"

definition validation_message :: jsstring where
  "validation_message = lit ''Please fill in both the topic title and SEO keyword''"

definition slow_message :: jsstring where
  "slow_message =
     lit ''This is taking longer than expected. Please wait while we generate your script...''"

definition failure_message :: jsstring where
  "failure_message = lit ''Failed to generate content. Please try again.''"

text \<open>The \<^verbatim>\<open>catch\<close> and \<^verbatim>\<open>finally\<close> blocks.\<close>

definition submit_failed :: "jsstring option \<Rightarrow> form_state \<Rightarrow> form_state" where
  "submit_failed thrown st =
     st\<lparr>errorMessage := (case thrown of Some msg \<Rightarrow> msg | None \<Rightarrow> failure_message),
        isLoading := False\<rparr>"

text \<open>
  The callback of the timer that \<^verbatim>\<open>handleSubmit\<close> arms with
  \<^verbatim>\<open>setTimeout(..., 10000)\<close>, and \<^verbatim>\<open>clearTimeout\<close> for that timer, which does
  nothing once the timer has fired.
\<close>

definition timeout_fires :: "form_state \<Rightarrow> form_state" where
  "timeout_fires st = st\<lparr>errorMessage := slow_message, armedTimeouts := armedTimeouts st - 1\<rparr>"

definition clearTimeout :: "bool \<Rightarrow> form_state \<Rightarrow> form_state" where
  "clearTimeout fired st = (if fired then st else st\<lparr>armedTimeouts := armedTimeouts st - 1\<rparr>)"

text \<open>
  \<^verbatim>\<open>handleSubmit\<close>. \<open>slow\<close> tells whether the ten-second timer fired
  before \<^verbatim>\<open>fetch\<close> settled: if so it has set its message by then, if not
  it is still armed. \<^verbatim>\<open>clearTimeout\<close> is reached only when \<^verbatim>\<open>fetch\<close>
  resolves; after a rejection the timer stays armed and
  \<open>timeout_fires\<close> runs later. The result is the state when the handler
  has finished and the request it issued, if any.
\<close>

definition handleSubmit :: "bool \<Rightarrow> fetch_outcome \<Rightarrow> form_state \<Rightarrow> form_state \<times> http_request option" where
  "handleSubmit slow outcome st =
     (if trim (topicTitle (formData st)) = [] \<or> trim (seoKeyword (formData st)) = []
      then (st\<lparr>errorMessage := validation_message\<rparr>, None)
      else
        let st1 = st\<lparr>isLoading := True, errorMessage := []\<rparr>;
            st2 = (if slow then st1\<lparr>errorMessage := slow_message\<rparr>
                   else st1\<lparr>armedTimeouts := armedTimeouts st1 + 1\<rparr>);
            request = generate_request (formData st);
            final =
              (case outcome of
                 FetchRejected thrown \<Rightarrow> submit_failed thrown st2
               | FetchResponse status body \<Rightarrow>
                   (let st3 = clearTimeout slow st2 in
                    case body of
                      NotJson msg \<Rightarrow> submit_failed (Some msg) st3
                    | JsonNull msg \<Rightarrow> submit_failed (Some msg) st3
                    | JsonData d \<Rightarrow>
                        if \<not> response_ok status
                        then submit_failed (Some (server_error_text d status)) st3
                        else st3\<lparr>generatedScript := data_script d,
                                 editableScript := data_script d,
                                 youtubeDescription := data_description d,
                                 editableDescription := data_description d,
                                 youtubeTags := data_tags d,
                                 editableTags := data_tags d,
                                 isLoading := False\<rparr>))
        in (final, Some request))"

text \<open>The generated content held by the form.\<close>

definition generated_content :: "form_state \<Rightarrow> jsstring option list" where
  "generated_content st =
     [generatedScript st, editableScript st, youtubeDescription st, editableDescription st,
      youtubeTags st, editableTags st]"

section \<open>Notions used to state the properties\<close>

text \<open>
  Decimal renderings: \<open>d\<close> renders \<open>n\<close> when it is a non-empty string of
  digits with value \<open>n\<close> and no superfluous leading zero.
\<close>

definition is_digit :: "char \<Rightarrow> bool" where
  "is_digit c = (48 \<le> (of_char c :: nat) \<and> (of_char c :: nat) \<le> 57)"

definition decimal_value :: "string \<Rightarrow> nat" where
  "decimal_value d = foldl (\<lambda>acc c. 10 * acc + (of_char c - 48)) 0 d"

definition decimal_rendering :: "nat \<Rightarrow> string \<Rightarrow> bool" where
  "decimal_rendering n d \<longleftrightarrow>
     d \<noteq> [] \<and> (\<forall>c \<in> set d. is_digit c) \<and> decimal_value d = n
     \<and> (1 < length d \<longrightarrow> hd d \<noteq> CHR ''0'')"

text \<open>\<open>d\<close> left-padded with \<^verbatim>\<open>'0'\<close> to at least \<open>k\<close> characters.\<close>

definition left_pad_zero :: "nat \<Rightarrow> string \<Rightarrow> string" where
  "left_pad_zero k d = replicate (k - length d) CHR ''0'' @ d"

section \<open>Properties of the format probe\<close>

lemma probe_find: "probe P ts = List.find P ts"
  by (induction ts) auto

text \<open>
  C3. Whatever predicate stands for \<^verbatim>\<open>MediaRecorder.isTypeSupported\<close>,
  \<^verbatim>\<open>getSupportedMimeType\<close> returns the first entry of the ordered probe list
  that the predicate accepts, and \<^verbatim>\<open>'video/webm'\<close> when it accepts none.
\<close>

theorem getSupportedMimeType_first_match:
  "getSupportedMimeType isTypeSupported =
     (case List.find isTypeSupported
        [''video/webm;codecs=vp9,opus'',
         ''video/webm;codecs=vp8,opus'',
         ''video/webm;codecs=h264,opus'',
         ''video/mp4;codecs=h264,aac'',
         ''video/webm'',
         ''video/mp4''] of Some t \<Rightarrow> t | None \<Rightarrow> ''video/webm'')"
  unfolding getSupportedMimeType_def probe_find mimeTypes_def ..

theorem getSupportedMimeType_first_match_witness:
  "getSupportedMimeType (\<lambda>t. t = ''video/mp4;codecs=h264,aac'' \<or> t = ''video/mp4'')
     = ''video/mp4;codecs=h264,aac''
   \<and> getSupportedMimeType (\<lambda>t. False) = ''video/webm''"
  using getSupportedMimeType_first_match [of "\<lambda>t. t = ''video/mp4;codecs=h264,aac'' \<or> t = ''video/mp4''"]
        getSupportedMimeType_first_match [of "\<lambda>t. False"]
  by simp

section \<open>Properties of the duration display\<close>

lemma of_char_digit_char: "d < 10 \<Longrightarrow> (of_char (digit_char d) :: nat) = 48 + d"
  by (simp add: digit_char_def)

lemma toString_nonempty: "toString n \<noteq> []"
  by (simp add: toString.simps[of n])

lemma toString_digits: "c \<in> set (toString n) \<Longrightarrow> is_digit c"
proof (induction n rule: toString.induct)
  case (1 n)
  show ?case
  proof (cases "n < 10")
    case True
    with 1(2) show ?thesis
      by (simp add: toString.simps[of n] is_digit_def of_char_digit_char)
  next
    case False
    with 1 show ?thesis
      by (auto simp add: toString.simps[of n] is_digit_def of_char_digit_char)
  qed
qed

lemma decimal_value_snoc: "decimal_value (d @ [c]) = 10 * decimal_value d + (of_char c - 48)"
  by (simp add: decimal_value_def)

lemma decimal_value_toString: "decimal_value (toString n) = n"
proof (induction n rule: toString.induct)
  case (1 n)
  show ?case
  proof (cases "n < 10")
    case True
    then show ?thesis
      by (simp add: toString.simps[of n] decimal_value_def of_char_digit_char)
  next
    case False
    with 1 show ?thesis
      by (simp add: toString.simps[of n] decimal_value_snoc of_char_digit_char)
  qed
qed

lemma hd_toString: "0 < n \<Longrightarrow> (of_char (hd (toString n)) :: nat) \<noteq> 48"
proof (induction n rule: toString.induct)
  case (1 n)
  show ?case
  proof (cases "n < 10")
    case True
    with 1(2) show ?thesis
      by (simp add: toString.simps[of n] of_char_digit_char)
  next
    case False
    then have "0 < n div 10" by simp
    with 1 False show ?thesis
      by (simp add: toString.simps[of n] toString_nonempty)
  qed
qed

lemma length_toString_gt1: "1 < length (toString n) \<Longrightarrow> 0 < n"
  by (cases "n = 0") (simp_all add: toString.simps[of 0])

lemma toString_decimal_rendering: "decimal_rendering n (toString n)"
  unfolding decimal_rendering_def
  using toString_nonempty toString_digits decimal_value_toString
    hd_toString[of n] length_toString_gt1[of n]
  by auto

lemma padStart_zero: "padStart k ''0'' d = left_pad_zero k d"
  by (simp add: padStart_def left_pad_zero_def)

lemma length_toString_le2:
  assumes "n < 100"
  shows "length (toString n) \<le> 2"
proof (cases "n < 10")
  case True
  then show ?thesis by (simp add: toString.simps[of n])
next
  case False
  from assms have "n div 10 < 10" by simp
  then have "toString (n div 10) = [digit_char (n div 10)]"
    by (simp add: toString.simps[of "n div 10"])
  with False show ?thesis by (simp add: toString.simps[of n])
qed

lemma bit_length_upper: "0 < n \<Longrightarrow> n < 2 ^ bit_length n"
proof (induction n rule: bit_length.induct)
  case (1 n)
  show ?case
  proof (cases "n div 2 = 0")
    case True
    with 1(2) have "n = 1" by presburger
    then show ?thesis by (simp add: bit_length.simps[of 1] bit_length.simps[of 0])
  next
    case False
    with 1(2) have pos: "0 < n div 2" by presburger
    with 1 have "n div 2 < 2 ^ bit_length (n div 2)" by simp
    then have "n < 2 * 2 ^ bit_length (n div 2)" by presburger
    with 1(2) show ?thesis by (simp add: bit_length.simps[of n])
  qed
qed

lemma bit_length_lower: "0 < n \<Longrightarrow> 2 ^ bit_length n \<le> 2 * n"
proof (induction n rule: bit_length.induct)
  case (1 n)
  show ?case
  proof (cases "n div 2 = 0")
    case True
    with 1(2) have "n = 1" by presburger
    then show ?thesis by (simp add: bit_length.simps[of 1] bit_length.simps[of 0])
  next
    case False
    with 1(2) have pos: "0 < n div 2" by presburger
    with 1 have "2 ^ bit_length (n div 2) \<le> 2 * (n div 2)" by simp
    then have "2 * 2 ^ bit_length (n div 2) \<le> 2 * n" by presburger
    with 1(2) show ?thesis by (simp add: bit_length.simps[of n])
  qed
qed

lemma binary_exponent_le:
  assumes "0 < x"
  shows "power_int 2 (binary_exponent x) \<le> x"
proof -
  obtain a b where q: "quotient_of x = (a, b)" by (cases "quotient_of x")
  then have b: "0 < b" and x: "x = of_int a / of_int b"
    using quotient_of_denom_pos[OF q] quotient_of_div[OF q] by auto
  from assms x b have a: "0 < a" by (simp add: zero_less_divide_iff)
  let ?c = "int (bit_length a) - int (bit_length b)"
  show ?thesis
  proof (cases "power_int 2 ?c \<le> x")
    case True
    then show ?thesis by (simp add: binary_exponent_def q)
  next
    case False
    have "(2::rat) ^ bit_length a \<le> 2 * of_int a"
      using bit_length_lower[OF a] by (metis of_int_le_iff of_int_mult of_int_numeral of_int_power)
    moreover have "(of_int b :: rat) < 2 ^ bit_length b"
      using bit_length_upper[OF b] by (metis of_int_less_iff of_int_numeral of_int_power)
    ultimately have "(2::rat) ^ bit_length a * of_int b \<le> 2 * of_int a * 2 ^ bit_length b"
      using a b by (intro mult_mono) auto
    then have "(2::rat) ^ bit_length a / (2 * 2 ^ bit_length b) \<le> of_int a / of_int b"
      using b by (simp add: field_simps)
    moreover have "power_int 2 (?c - 1) = (2::rat) ^ bit_length a / (2 * 2 ^ bit_length b)"
      by (simp add: power_int_diff)
    ultimately have "power_int 2 (?c - 1) \<le> x" using x by simp
    with False show ?thesis by (simp add: binary_exponent_def q)
  qed
qed

lemma binary_exponent_gt:
  assumes "0 < x"
  shows "x < power_int 2 (binary_exponent x + 1)"
proof -
  obtain a b where q: "quotient_of x = (a, b)" by (cases "quotient_of x")
  then have b: "0 < b" and x: "x = of_int a / of_int b"
    using quotient_of_denom_pos[OF q] quotient_of_div[OF q] by auto
  from assms x b have a: "0 < a" by (simp add: zero_less_divide_iff)
  let ?c = "int (bit_length a) - int (bit_length b)"
  show ?thesis
  proof (cases "power_int 2 ?c \<le> x")
    case True
    have "(of_int a :: rat) < 2 ^ bit_length a"
      using bit_length_upper[OF a] by (metis of_int_less_iff of_int_numeral of_int_power)
    moreover have "(2::rat) ^ bit_length b \<le> 2 * of_int b"
      using bit_length_lower[OF b] by (metis of_int_le_iff of_int_mult of_int_numeral of_int_power)
    ultimately have "(of_int a :: rat) * 2 ^ bit_length b < 2 ^ bit_length a * (2 * of_int b)"
      using a b by (intro mult_less_le_imp_less) auto
    then have "of_int a / of_int b < (2::rat) * 2 ^ bit_length a / 2 ^ bit_length b"
      using b by (simp add: field_simps)
    moreover have "power_int 2 (?c + 1) = (2::rat) * 2 ^ bit_length a / 2 ^ bit_length b"
      by (simp add: power_int_diff power_int_add)
    ultimately have "x < power_int 2 (?c + 1)" using x by simp
    with True show ?thesis by (simp add: binary_exponent_def q)
  next
    case False
    then show ?thesis by (simp add: binary_exponent_def q)
  qed
qed

lemma binary_exponent_less:
  assumes "0 < x" and "x < 2 ^ n"
  shows "binary_exponent x < int n"
proof (rule ccontr)
  assume "\<not> binary_exponent x < int n"
  then have "int n \<le> binary_exponent x" by simp
  then have "power_int (2::rat) (int n) \<le> power_int 2 (binary_exponent x)"
    by (intro power_int_increasing) auto
  with binary_exponent_le[OF assms(1)] assms(2) show False by simp
qed

lemma round_half_even_bounds:
  "of_int (round_half_even y) \<le> y + 1 / 2" "y - 1 / 2 \<le> of_int (round_half_even y)"
  unfolding round_half_even_def Let_def by (auto; linarith)+

lemma round_half_even_ge_int: "of_int k \<le> y \<Longrightarrow> k \<le> round_half_even y"
proof -
  assume "of_int k \<le> y"
  then have "k \<le> \<lfloor>y\<rfloor>" by (simp add: le_floor_iff)
  then show ?thesis unfolding round_half_even_def Let_def by auto
qed

lemma round_positive_small:
  assumes "0 < x" and "x < 2 ^ 48"
  obtains j where "5 \<le> j" and "round_positive x = of_int (round_half_even (x * 2 ^ j)) / 2 ^ j"
proof -
  let ?e = "binary_exponent x"
  have e: "?e < 48" using binary_exponent_less[OF assms(1), of 48] assms(2) by simp
  define j where "j = nat (52 - ?e)"
  have j5: "5 \<le> j" using e by (simp add: j_def)
  have "?e - 52 = - int j" using e by (simp add: j_def)
  then have "power_int (2::rat) (?e - 52) = 1 / 2 ^ j"
    by (simp add: power_int_minus_divide)
  then have "round_positive x = of_int (round_half_even (x * 2 ^ j)) / 2 ^ j"
    by (simp add: round_positive_def Let_def)
  with j5 show ?thesis by (rule that)
qed

text \<open>Below \<open>2 ^ 53\<close> the rounded quotient has the floor of the exact one.\<close>

lemma floor_number_div_60:
  assumes "s < 2 ^ 53"
  shows "\<lfloor>number_div (of_nat s) 60\<rfloor> = int (s div 60)"
proof (cases "s = 0")
  case True
  then show ?thesis by (simp add: number_div_def to_double_def)
next
  case False
  let ?x = "of_nat s / 60 :: rat"
  let ?k = "int (s div 60)"
  have pos: "0 < ?x" using False by simp
  have "(of_nat s :: rat) < 2 ^ 53"
    using assms by (metis of_nat_less_iff of_nat_numeral of_nat_power)
  then have small: "?x < 2 ^ 48" by simp
  obtain j where j: "5 \<le> j"
    and r: "round_positive ?x = of_int (round_half_even (?x * 2 ^ j)) / 2 ^ j"
    using round_positive_small[OF pos small] by blast
  let ?N = "round_half_even (?x * 2 ^ j)"
  have klow: "(of_int ?k :: rat) \<le> ?x"
  proof -
    have "60 * (s div 60) \<le> s" by simp
    then have "(of_nat (60 * (s div 60)) :: rat) \<le> of_nat s" by (simp only: of_nat_le_iff)
    then show ?thesis by simp
  qed
  have kup: "?x \<le> of_int ?k + 59 / 60"
  proof -
    have "s \<le> 60 * (s div 60) + 59" by presburger
    then have "(of_nat s :: rat) \<le> of_nat (60 * (s div 60) + 59)" by (simp only: of_nat_le_iff)
    then show ?thesis by simp
  qed
  have p32: "(32::rat) \<le> 2 ^ j"
  proof -
    have "(2::rat) ^ 5 \<le> 2 ^ j" using j by (intro power_increasing) auto
    then show ?thesis by simp
  qed
  have "of_int (?k * 2 ^ j) \<le> ?x * 2 ^ j"
    using klow by (simp add: mult_right_mono)
  then have "?k * 2 ^ j \<le> ?N" by (rule round_half_even_ge_int)
  then have "(of_int (?k * 2 ^ j) :: rat) \<le> of_int ?N" by (simp only: of_int_le_iff)
  then have low: "(of_int ?k :: rat) \<le> of_int ?N / 2 ^ j"
    by (simp add: field_simps)
  have "(of_int ?N :: rat) \<le> ?x * 2 ^ j + 1 / 2" by (rule round_half_even_bounds)
  also have "\<dots> \<le> (of_int ?k + 59 / 60) * 2 ^ j + 1 / 2"
    using kup by (simp add: mult_right_mono)
  also have "\<dots> < (of_int ?k + 1) * 2 ^ j"
    using p32 by (simp add: algebra_simps)
  finally have up: "(of_int ?N :: rat) / 2 ^ j < of_int ?k + 1"
    by (simp add: field_simps)
  have "\<lfloor>(of_int ?N :: rat) / 2 ^ j\<rfloor> = ?k"
    using low up by (simp add: floor_unique)
  with pos r show ?thesis by (simp add: number_div_def to_double_def)
qed

lemma formatTime_safe:
  assumes "s < 2 ^ 53"
  shows "formatTime large s =
           left_pad_zero 2 (toString (s div 60)) @ '':'' @ left_pad_zero 2 (toString (s mod 60))"
proof -
  have d: "s div 60 < 2 ^ 53" using assms by (rule le_less_trans[OF div_le_dividend])
  have m: "s mod 60 < 2 ^ 53"
    by (rule less_trans[of _ 60]) simp_all
  show ?thesis
    using d m by (simp add: formatTime_def numberToString_def floor_number_div_60[OF assms]
        padStart_zero Let_def)
qed

text \<open>
  C10, as the code has it. For every non-negative integer \<open>s\<close> up to
  \<open>2 ^ 53 - 1 = 9007199254740991\<close>, \<^verbatim>\<open>formatTime(s)\<close> is the decimal rendering
  of \<open>s div 60\<close> left-padded with zeros to at least two characters, a colon,
  and the decimal rendering of \<open>s mod 60\<close> left-padded with zeros to exactly
  two characters; 65 gives \<^verbatim>\<open>01:05\<close> and 0 gives \<^verbatim>\<open>00:00\<close>.
\<close>

theorem formatTime_renders_minutes_and_seconds:
  assumes "s \<le> 9007199254740991"
  shows "\<exists>m sc. decimal_rendering (s div 60) m \<and> decimal_rendering (s mod 60) sc
      \<and> formatTime large s = left_pad_zero 2 m @ '':'' @ left_pad_zero 2 sc
      \<and> 2 \<le> length (left_pad_zero 2 m) \<and> length (left_pad_zero 2 sc) = 2
      \<and> formatTime large 65 = ''01:05'' \<and> formatTime large 0 = ''00:00''"
proof -
  have s: "s < 2 ^ 53" using assms by simp
  have t65: "toString (65 div 60) = ''1'' \<and> toString (65 mod 60) = ''5''" by code_simp
  have t0: "toString (0 div 60) = ''0'' \<and> toString (0 mod 60) = ''0''" by code_simp
  have ex1: "formatTime large 65 = ''01:05''"
    using t65 by (simp add: formatTime_safe[of 65 large] left_pad_zero_def)
  have ex2: "formatTime large 0 = ''00:00''"
    using t0 by (simp add: formatTime_safe[of 0 large] left_pad_zero_def)
  have l: "length (toString (s mod 60)) \<le> 2"
    by (rule length_toString_le2) simp
  have a: "length (left_pad_zero 2 (toString (s mod 60))) = 2"
    using l toString_nonempty[of "s mod 60"] by (simp add: left_pad_zero_def)
  have b: "2 \<le> length (left_pad_zero 2 (toString (s div 60)))"
    by (simp add: left_pad_zero_def)
  have c: "formatTime large s =
      left_pad_zero 2 (toString (s div 60)) @ '':'' @ left_pad_zero 2 (toString (s mod 60))"
    by (rule formatTime_safe[OF s])
  show ?thesis
    using toString_decimal_rendering[of "s div 60"] toString_decimal_rendering[of "s mod 60"]
      a b c ex1 ex2
    by blast
qed

theorem formatTime_renders_minutes_and_seconds_witness:
  "(\<exists>m sc. decimal_rendering (125 div 60) m \<and> decimal_rendering (125 mod 60) sc
      \<and> formatTime (\<lambda>n. []) 125 = left_pad_zero 2 m @ '':'' @ left_pad_zero 2 sc
      \<and> 2 \<le> length (left_pad_zero 2 m) \<and> length (left_pad_zero 2 sc) = 2)
   \<and> (\<exists>m sc. decimal_rendering (9007199254740991 div 60) m
      \<and> decimal_rendering (9007199254740991 mod 60) sc
      \<and> formatTime (\<lambda>n. []) 9007199254740991 = left_pad_zero 2 m @ '':'' @ left_pad_zero 2 sc)"
proof -
  have a: "(125::nat) \<le> 9007199254740991" by simp
  have b: "(9007199254740991::nat) \<le> 9007199254740991" by simp
  show ?thesis
    using formatTime_renders_minutes_and_seconds [OF a, of "\<lambda>n. []"]
      formatTime_renders_minutes_and_seconds [OF b, of "\<lambda>n. []"]
    by blast
qed

lemma toString_numeral:
  "toString (numeral k) =
     (if (numeral k :: nat) < 10 then [digit_char (numeral k)]
      else toString (numeral k div 10) @ [digit_char (numeral k mod 10)])"
  by (rule toString.simps)

lemma digit_chars:
  "digit_char 0 = CHR ''0''" "digit_char 1 = CHR ''1''" "digit_char 2 = CHR ''2''"
  "digit_char 3 = CHR ''3''" "digit_char 4 = CHR ''4''" "digit_char 5 = CHR ''5''"
  "digit_char 6 = CHR ''6''" "digit_char 7 = CHR ''7''" "digit_char 8 = CHR ''8''"
  "digit_char 9 = CHR ''9''"
  by code_simp+

lemma number_div_rounds_up: "number_div 288230376151712576 60 = 4803839602528543"
  unfolding number_div_def by code_simp

lemma to_double_exact: "to_double 288230376151712576 = 288230376151712576"
  by code_simp

text \<open>
  C10 as stated fails beyond \<open>2 ^ 53\<close>. The integer 288230376151712576 is a
  Number; divided by 60 it rounds up to a whole double, so
  \<^verbatim>\<open>formatTime\<close> shows one minute more than \<open>s div 60\<close>.
\<close>

theorem formatTime_large_argument:
  "is_number 288230376151712576
   \<and> formatTime (\<lambda>n. []) 288230376151712576 = ''4803839602528543:56''
   \<and> (288230376151712576::nat) div 60 = 4803839602528542
   \<and> formatTime (\<lambda>n. []) 288230376151712576 \<noteq> ''4803839602528542:56''"
proof -
  have f: "formatTime (\<lambda>n. []) 288230376151712576 = ''4803839602528543:56''"
    by (simp add: formatTime_def number_div_rounds_up numberToString_def padStart_def
        toString_numeral digit_chars)
  have n: "is_number 288230376151712576"
    by (simp add: is_number_def to_double_exact)
  show ?thesis using f n by simp
qed

section \<open>Properties of the media error messages\<close>

text \<open>
  C6, as the code has it. \<^verbatim>\<open>handleMediaError\<close> has no failing branch and
  returns a non-empty string for every input except two: the empty string,
  which it returns as it is, and an object whose \<^verbatim>\<open>message\<close> is a truthy
  value that is not a string, which it returns as well. A
  \<^verbatim>\<open>DOMException\<close> named \<^verbatim>\<open>NotAllowedError\<close> or
  \<^verbatim>\<open>PermissionDeniedError\<close> gives the permission text.
\<close>

theorem handleMediaError_user_facing_text:
  "(e \<noteq> JString [] \<and> (\<forall>m. e = JObject (Some m) \<and> truthy m \<longrightarrow> nonempty_string m)
      \<longrightarrow> nonempty_string (handleMediaError e ctx))
   \<and> handleMediaError (JString []) ctx = JString []
   \<and> handleMediaError (JDOMException ''NotAllowedError'') ctx =
       JString ''Permission denied. Please allow access to your camera and microphone.''
   \<and> handleMediaError (JDOMException ''PermissionDeniedError'') ctx =
       JString ''Permission denied. Please allow access to your camera and microphone.''"
proof -
  have "nonempty_string (handleMediaError e ctx)"
    if "e \<noteq> JString []" and "\<forall>m. e = JObject (Some m) \<and> truthy m \<longrightarrow> nonempty_string m"
    using that
  proof (cases e)
    case (JObject x)
    with that show ?thesis by (cases x) simp_all
  qed (simp_all add: domExceptionMessage_def)
  then show ?thesis by (simp add: domExceptionMessage_def)
qed

theorem handleMediaError_user_facing_text_witness:
  "nonempty_string (handleMediaError (JObject (Some (JString ''boom''))) None)
   \<and> nonempty_string (handleMediaError (JDOMException ''TypeError'') (Some ''camera''))
   \<and> nonempty_string (handleMediaError JNull (Some ''camera''))"
  using handleMediaError_user_facing_text [of "JObject (Some (JString ''boom''))" None]
        handleMediaError_user_facing_text [of "JDOMException ''TypeError''" "Some ''camera''"]
        handleMediaError_user_facing_text [of "JNull" "Some ''camera''"]
  by simp

text \<open>
  C6 as stated fails: given the empty string, \<^verbatim>\<open>handleMediaError\<close> returns
  the empty string.
\<close>

theorem handleMediaError_empty_string:
  "handleMediaError (JString []) None = JString []
   \<and> \<not> nonempty_string (handleMediaError (JString []) None)"
  by simp

section \<open>Properties of the download file names\<close>

text \<open>
  C5, as the code has it. A download that offers a file names it as follows:
  the download utility of the \<^verbatim>\<open>VideoRecorder\<close> components uses
  \<^verbatim>\<open>recording_\<close>, the ISO-8601 text of the current time and \<^verbatim>\<open>.webm\<close>; the
  player of video-recorder/VideoPlayer.tsx and the hook-based recorder use
  \<^verbatim>\<open>recording-\<close>, the first 19 characters of the ISO-8601 text with every
  colon turned into a hyphen, and \<^verbatim>\<open>.webm\<close>; the player of
  video-recorder/components uses \<^verbatim>\<open>recording-\<close>, the ISO-8601 text and
  \<^verbatim>\<open>.webm\<close>; the link under the preview of the \<^verbatim>\<open>VideoRecorder\<close>
  components uses the fixed name \<^verbatim>\<open>screen_recording.webm\<close>.
\<close>

theorem download_names:
  "(\<not> falsy_url videoUrl \<and> recordedChunks \<noteq> [] \<longrightarrow>
       utils_downloadVideo videoUrl recordedChunks None isoString =
         Inr (''recording_'' @ isoString @ ''.webm''))
   \<and> (\<not> falsy_url videoUrl \<longrightarrow>
       player_handleDownload videoUrl isoString =
         Some (''recording-''
               @ map (\<lambda>c. if c = CHR '':'' then CHR ''-'' else c) (take 19 isoString)
               @ ''.webm''))
   \<and> (videoBlob \<noteq> None \<longrightarrow>
       recorder_downloadVideo videoBlob isoString =
         Some (''recording-''
               @ map (\<lambda>c. if c = CHR '':'' then CHR ''-'' else c) (take 19 isoString)
               @ ''.webm''))
   \<and> (\<not> falsy_url videoUrl \<and> videoBlob \<noteq> None \<longrightarrow>
       component_handleDownload videoUrl videoBlob isoString =
         Some (''recording-'' @ isoString @ ''.webm''))
   \<and> (\<not> falsy_url videoUrl \<longrightarrow>
       preview_download_link videoUrl = Some ''screen_recording.webm'')"
  by (simp add: utils_downloadVideo_def player_handleDownload_def recorder_downloadVideo_def
      component_handleDownload_def preview_download_link_def slice_0_19_def replace_colons_def)

theorem download_names_witness:
  "utils_downloadVideo (Some ''blob:recording'') [0::nat] None ''2024-01-02T03:04:05.678Z''
      = Inr ''recording_2024-01-02T03:04:05.678Z.webm''
   \<and> player_handleDownload (Some ''blob:recording'') ''2024-01-02T03:04:05.678Z''
      = Some ''recording-2024-01-02T03-04-05.webm''
   \<and> recorder_downloadVideo (Some (0::nat)) ''2024-01-02T03:04:05.678Z''
      = Some ''recording-2024-01-02T03-04-05.webm''
   \<and> component_handleDownload (Some ''blob:recording'') (Some (0::nat)) ''2024-01-02T03:04:05.678Z''
      = Some ''recording-2024-01-02T03:04:05.678Z.webm''
   \<and> preview_download_link (Some ''blob:recording'') = Some ''screen_recording.webm''"
  using download_names [of "Some ''blob:recording''" "[0::nat]" "''2024-01-02T03:04:05.678Z''"
      "Some (0::nat)"]
  by (simp add: falsy_url_def)

text \<open>
  C5 as stated fails for the player's download button: the name it suggests
  at the clock reading \<^verbatim>\<open>2024-01-02T03:04:05.678Z\<close> is not
  \<^verbatim>\<open>recording_2024-01-02T03:04:05.678Z.webm\<close>.
\<close>

theorem player_download_name:
  "player_handleDownload (Some ''blob:recording'') ''2024-01-02T03:04:05.678Z''
      = Some ''recording-2024-01-02T03-04-05.webm''
   \<and> player_handleDownload (Some ''blob:recording'') ''2024-01-02T03:04:05.678Z''
      \<noteq> Some (''recording_'' @ ''2024-01-02T03:04:05.678Z'' @ ''.webm'')"
  by (simp add: player_handleDownload_def falsy_url_def slice_0_19_def replace_colons_def)

section \<open>Properties of the direct audio stream\<close>

lemma getVideoTracks_enableAudioTracks [simp]:
  "getVideoTracks (enableAudioTracks s) = getVideoTracks s"
  by (induction s) (auto simp: getVideoTracks_def enableAudioTracks_def)

lemma getAudioTracks_enableAudioTracks_empty [simp]:
  "getAudioTracks (enableAudioTracks s) = [] \<longleftrightarrow> getAudioTracks s = []"
  by (induction s) (auto simp: getAudioTracks_def enableAudioTracks_def)




section \<open>Properties of the view mode\<close>

lemma ViewMode_UNIV: "(UNIV :: ViewMode set) = {Full, Split, Circle, Tutorial}"
proof -
  have "m \<in> {Full, Split, Circle, Tutorial}" for m by (cases m) simp_all
  then show ?thesis by blast
qed

lemma changeViewMode_lastViewMode:
  "lastViewMode (snd (changeViewMode rs now m sw)) =
     (if m = viewMode (fst sw) then lastViewMode (snd sw) else Some (viewModeString m))"
  by (cases sw) (simp add: changeViewMode_def Let_def)

lemma changeViewMode_viewMode:
  "viewMode (fst (changeViewMode rs now m sw)) = m"
  by (cases sw) (simp add: changeViewMode_def Let_def)

lemma viewModeString_in: "viewModeString m \<in> {''full'', ''split'', ''circle'', ''tutorial''}"
  by (cases m) simp_all

lemma view_clicks_lastViewMode:
  "lastViewMode (snd sw) \<in> insert None (Some ` {''full'', ''split'', ''circle'', ''tutorial''})
   \<Longrightarrow> lastViewMode (snd (view_clicks cs sw))
         \<in> insert None (Some ` {''full'', ''split'', ''circle'', ''tutorial''})"
proof (induction cs arbitrary: sw)
  case Nil
  then show ?case by simp
next
  case (Cons c cs)
  have "lastViewMode (snd (changeViewMode (click_recordingState c) (click_time c) (click_mode c) sw))
          \<in> insert None (Some ` {''full'', ''split'', ''circle'', ''tutorial''})"
    using Cons.prems viewModeString_in[of "click_mode c"]
    by (simp add: changeViewMode_lastViewMode)
  then show ?case
    unfolding view_clicks.simps by (rule Cons.IH)
qed

text \<open>
  C7. The type \<^verbatim>\<open>ViewMode\<close> has exactly the four members \<^verbatim>\<open>'full'\<close>,
  \<^verbatim>\<open>'split'\<close>, \<^verbatim>\<open>'circle'\<close> and \<^verbatim>\<open>'tutorial'\<close>; the view mode starts as
  \<^verbatim>\<open>'full'\<close>; \<^verbatim>\<open>changeViewMode\<close> leaves the state at the requested mode and,
  when that differs from the current one, stores its string in
  \<^verbatim>\<open>window._lastViewMode\<close>; so after any sequence of clicks on the four view
  buttons the state is one of the four members and the global, which starts
  undefined or as \<^verbatim>\<open>'full'\<close>, is undefined or one of the four strings.
\<close>

theorem view_mode_values:
  "(UNIV :: ViewMode set) = {Full, Split, Circle, Tutorial}
   \<and> viewModeString ` UNIV = {''full'', ''split'', ''circle'', ''tutorial''}
   \<and> viewMode (initial_view_state now) = Full
   \<and> viewMode (fst (changeViewMode rs t newMode (st, w))) = newMode
   \<and> (newMode \<noteq> viewMode st \<longrightarrow>
        lastViewMode (snd (changeViewMode rs t newMode (st, w))) = Some (viewModeString newMode))
   \<and> viewMode (fst (view_clicks clicks (initial_view_state now, w)))
        \<in> {Full, Split, Circle, Tutorial}
   \<and> (lastViewMode w = None \<or> lastViewMode w = Some ''full'' \<longrightarrow>
        lastViewMode (snd (view_clicks clicks (initial_view_state now, w)))
          \<in> insert None (Some ` {''full'', ''split'', ''circle'', ''tutorial''}))"
proof -
  have u: "(UNIV :: ViewMode set) = {Full, Split, Circle, Tutorial}" by (rule ViewMode_UNIV)
  have s: "viewModeString ` UNIV = {''full'', ''split'', ''circle'', ''tutorial''}"
    unfolding u by simp
  have m: "viewMode (fst (view_clicks clicks (initial_view_state now, w)))
             \<in> {Full, Split, Circle, Tutorial}"
    using u by blast
  have l: "lastViewMode (snd (view_clicks clicks (initial_view_state now, w)))
          \<in> insert None (Some ` {''full'', ''split'', ''circle'', ''tutorial''})"
    if "lastViewMode w = None \<or> lastViewMode w = Some ''full''"
    using that view_clicks_lastViewMode[of "(initial_view_state now, w)" clicks] by auto
  show ?thesis
    using u s m l
    by (simp add: changeViewMode_viewMode changeViewMode_lastViewMode initial_view_state_def)
qed

theorem view_mode_values_witness:
  "lastViewMode (snd (changeViewMode Idle ''t1'' Circle (initial_view_state ''t0'',
          \<lparr>directAudioStream = None, audioTracksAdded = None, lastViewMode = None\<rparr>)))
     = Some ''circle''
   \<and> lastViewMode (snd (view_clicks
         [\<lparr>click_mode = Circle, click_recordingState = Idle, click_time = ''t1''\<rparr>,
          \<lparr>click_mode = Tutorial, click_recordingState = Recording, click_time = ''t2''\<rparr>]
         (initial_view_state ''t0'',
          \<lparr>directAudioStream = None, audioTracksAdded = None, lastViewMode = None\<rparr>)))
        \<in> insert None (Some ` {''full'', ''split'', ''circle'', ''tutorial''})"
  using view_mode_values [of "''t0''" Idle "''t1''" Circle "initial_view_state ''t0''"
      "\<lparr>directAudioStream = None, audioTracksAdded = None, lastViewMode = None\<rparr>"
      "[\<lparr>click_mode = Circle, click_recordingState = Idle, click_time = ''t1''\<rparr>,
          \<lparr>click_mode = Tutorial, click_recordingState = Recording, click_time = ''t2''\<rparr>]"]
  by (simp add: initial_view_state_def)

section \<open>Properties of the teleprompter\<close>




















section \<open>Properties of the recording state machines\<close>

lemma state_writes_subset:
  assumes "\<And>rs e. set (writes rs e) \<subseteq> S" and "rs \<in> S"
  shows "set (state_writes writes rs es) \<subseteq> S"
  using assms(2)
proof (induction es arbitrary: rs)
  case Nil
  then show ?case by simp
next
  case (Cons e es)
  have w: "set (writes rs e) \<subseteq> S" by (rule assms(1))
  have "last (rs # writes rs e) \<in> S"
    using Cons.prems w by (cases "writes rs e = []") (auto dest: last_in_set)
  then have "set (state_writes writes (last (rs # writes rs e)) es) \<subseteq> S"
    by (rule Cons.IH)
  with w show ?case by simp
qed

lemma state_history_subset:
  assumes "\<And>rs e. set (writes rs e) \<subseteq> S" and "Idle \<in> S"
  shows "set (state_history writes es) \<subseteq> S"
  using state_writes_subset[of writes S Idle es] assms by (simp add: state_history_def)

lemma hook_writes_values: "set (hook_writes rs e) \<subseteq> {Idle, Recording, Paused, Processing}"
  by (cases e)
    (auto simp: hook_startRecording_def hook_stopRecording_def hook_pauseRecording_def
      hook_resumeRecording_def)

lemma canvas_component_values:
  "set (canvas_component_writes rs e) \<subseteq> {Idle, Recording, Paused}"
  by (cases e) (auto simp: component_pauseRecording_def)

lemma camera_component_values:
  "set (camera_component_writes rs e) \<subseteq> {Idle, Recording, Paused}"
  by (cases e) (auto simp: component_pauseRecording_def)

lemma reconnecting_component_values:
  "set (reconnecting_component_writes rs e) \<subseteq> {Idle, Recording, Paused}"
  by (cases e) (auto simp: component_pauseRecording_def)

lemma timed_component_values:
  "set (timed_component_writes rs e) \<subseteq> {Idle, Recording, Paused}"
  by (cases e) (auto simp: component_pauseRecording_def)

text \<open>
  C1, as the code has it. Starting from \<^verbatim>\<open>'idle'\<close>, the recording state of
  each of the four \<^verbatim>\<open>VideoRecorder\<close> components only takes the values
  \<^verbatim>\<open>'idle'\<close>, \<^verbatim>\<open>'recording'\<close> and \<^verbatim>\<open>'paused'\<close>, whatever operations run and
  whatever the host does; the state of the \<^verbatim>\<open>useRecording\<close> hook takes these
  values and \<^verbatim>\<open>'processing'\<close>, which it enters while starting and while
  stopping.
\<close>

theorem recording_state_values:
  "set (state_history hook_writes hes) \<subseteq> {Idle, Recording, Paused, Processing}
   \<and> set (state_history canvas_component_writes ces) \<subseteq> {Idle, Recording, Paused}
   \<and> set (state_history camera_component_writes ces) \<subseteq> {Idle, Recording, Paused}
   \<and> set (state_history reconnecting_component_writes ces) \<subseteq> {Idle, Recording, Paused}
   \<and> set (state_history timed_component_writes ces) \<subseteq> {Idle, Recording, Paused}"
  using state_history_subset[of hook_writes "{Idle, Recording, Paused, Processing}" hes,
          OF hook_writes_values]
        state_history_subset[of canvas_component_writes "{Idle, Recording, Paused}" ces,
          OF canvas_component_values]
        state_history_subset[of camera_component_writes "{Idle, Recording, Paused}" ces,
          OF camera_component_values]
        state_history_subset[of reconnecting_component_writes "{Idle, Recording, Paused}" ces,
          OF reconnecting_component_values]
        state_history_subset[of timed_component_writes "{Idle, Recording, Paused}" ces,
          OF timed_component_values]
  by simp

theorem recording_state_values_witness:
  "set (state_history hook_writes
          [HookStart \<lparr>canvasStream_present = True, directAudioStream_present = False,
                      getUserMedia_resolves = True, initialize_resolves = True\<rparr>,
           HookPauseButton,
           HookStop \<lparr>recordRTC_present = True, stop_resolves = True\<rparr>])
      \<subseteq> {Idle, Recording, Paused, Processing}
   \<and> set (state_history timed_component_writes
          [StartRecording \<lparr>stream_present = True, recorder_present = False,
                           context_created = True, host_throws = False\<rparr>,
           StopRecording \<lparr>stream_present = True, recorder_present = True,
                          context_created = True, host_throws = False\<rparr>])
      \<subseteq> {Idle, Recording, Paused}"
  using recording_state_values [of
      "[HookStart \<lparr>canvasStream_present = True, directAudioStream_present = False,
                   getUserMedia_resolves = True, initialize_resolves = True\<rparr>,
        HookPauseButton,
        HookStop \<lparr>recordRTC_present = True, stop_resolves = True\<rparr>]"
      "[StartRecording \<lparr>stream_present = True, recorder_present = False,
                        context_created = True, host_throws = False\<rparr>,
        StopRecording \<lparr>stream_present = True, recorder_present = True,
                       context_created = True, host_throws = False\<rparr>]"]
  by blast

text \<open>
  C1 as stated fails for the hook: a start with a canvas stream available
  takes the state through \<^verbatim>\<open>'processing'\<close>.
\<close>

theorem hook_start_enters_processing:
  "state_history hook_writes
     [HookStart \<lparr>canvasStream_present = True, directAudioStream_present = False,
                 getUserMedia_resolves = True, initialize_resolves = True\<rparr>]
     = [Idle, Processing, Recording]
   \<and> Processing \<notin> {Idle, Recording, Paused}"
  by (simp add: state_history_def hook_startRecording_def)

section \<open>Properties of the script-generation form\<close>

lemma trim_empty_iff: "trim s = [] \<longleftrightarrow> (\<forall>c \<in> set s. isWhiteSpace c)"
proof
  assume "trim s = []"
  then have a: "\<forall>c \<in> set (dropWhile isWhiteSpace s). isWhiteSpace c"
    by (simp add: trim_def)
  have "dropWhile isWhiteSpace s = []"
  proof (rule ccontr)
    assume ne: "dropWhile isWhiteSpace s \<noteq> []"
    then have "\<not> isWhiteSpace (hd (dropWhile isWhiteSpace s))" by (rule hd_dropWhile)
    moreover have "hd (dropWhile isWhiteSpace s) \<in> set (dropWhile isWhiteSpace s)"
      using ne by (rule hd_in_set)
    ultimately show False using a by blast
  qed
  then show "\<forall>c \<in> set s. isWhiteSpace c" by simp
next
  assume "\<forall>c \<in> set s. isWhiteSpace c"
  then have "dropWhile isWhiteSpace s = []" by simp
  then show "trim s = []" by (simp only: trim_def rev.simps dropWhile.simps)
qed

lemma generated_content_errorMessage [simp]:
  "generated_content (st\<lparr>errorMessage := e\<rparr>) = generated_content st"
  by (simp add: generated_content_def)

lemma handleSubmit_valid:
  assumes "trim (topicTitle (formData st)) \<noteq> []" and "trim (seoKeyword (formData st)) \<noteq> []"
  shows "handleSubmit slow outcome st =
     (let st1 = st\<lparr>isLoading := True, errorMessage := []\<rparr>;
          st2 = (if slow then st1\<lparr>errorMessage := slow_message\<rparr>
                 else st1\<lparr>armedTimeouts := armedTimeouts st1 + 1\<rparr>)
      in ((case outcome of
             FetchRejected thrown \<Rightarrow> submit_failed thrown st2
           | FetchResponse status body \<Rightarrow>
               (let st3 = clearTimeout slow st2 in
                case body of
                  NotJson msg \<Rightarrow> submit_failed (Some msg) st3
                | JsonNull msg \<Rightarrow> submit_failed (Some msg) st3
                | JsonData d \<Rightarrow>
                    if \<not> response_ok status
                    then submit_failed (Some (server_error_text d status)) st3
                    else st3\<lparr>generatedScript := data_script d,
                             editableScript := data_script d,
                             youtubeDescription := data_description d,
                             editableDescription := data_description d,
                             youtubeTags := data_tags d,
                             editableTags := data_tags d,
                             isLoading := False\<rparr>)),
          Some (generate_request (formData st))))"
  using assms by (simp add: handleSubmit_def Let_def)

text \<open>
  After a rejected \<^verbatim>\<open>fetch\<close> that settled within ten seconds the timer is
  still armed, and its callback replaces the error message.
\<close>

lemma handleSubmit_rejected_leaves_timer:
  assumes "trim (topicTitle (formData st)) \<noteq> []" and "trim (seoKeyword (formData st)) \<noteq> []"
  shows "armedTimeouts (fst (handleSubmit False (FetchRejected thrown) st)) = armedTimeouts st + 1"
    and "errorMessage (timeout_fires (fst (handleSubmit False (FetchRejected thrown) st)))
           = slow_message"
  unfolding handleSubmit_valid[OF assms]
  by (simp_all add: Let_def submit_failed_def timeout_fires_def)

text \<open>
  C9. When the topic title or the SEO keyword is empty or consists of white
  space only, submitting issues no request, sets the error message
  \<^verbatim>\<open>Please fill in both the topic title and SEO keyword\<close> and changes nothing
  else, so the generated content stays as it was. When neither is blank the
  request is issued whatever the creator information is, blank or not.
\<close>

theorem blank_required_field_blocks_submission:
  "((\<forall>c \<in> set (topicTitle (formData st)). isWhiteSpace c)
      \<or> (\<forall>c \<in> set (seoKeyword (formData st)). isWhiteSpace c) \<longrightarrow>
        handleSubmit slow outcome st =
          (st\<lparr>errorMessage := lit ''Please fill in both the topic title and SEO keyword''\<rparr>, None)
        \<and> generated_content (fst (handleSubmit slow outcome st)) = generated_content st)
   \<and> (\<not> (\<forall>c \<in> set (topicTitle (formData st)). isWhiteSpace c)
      \<and> \<not> (\<forall>c \<in> set (seoKeyword (formData st)). isWhiteSpace c) \<longrightarrow>
        snd (handleSubmit slow outcome st) = Some (generate_request (formData st)))"
  by (simp add: handleSubmit_def trim_empty_iff validation_message_def Let_def)

theorem blank_required_field_blocks_submission_witness:
  "handleSubmit False (FetchRejected None)
      (initial_form\<lparr>formData :=
         \<lparr>topicTitle = lit ''  '', seoKeyword = lit ''cat care'', creatorInfo = []\<rparr>\<rparr>)
    = (initial_form\<lparr>formData :=
         \<lparr>topicTitle = lit ''  '', seoKeyword = lit ''cat care'', creatorInfo = []\<rparr>,
         errorMessage := lit ''Please fill in both the topic title and SEO keyword''\<rparr>, None)
   \<and> snd (handleSubmit False (FetchRejected None)
      (initial_form\<lparr>formData :=
         \<lparr>topicTitle = lit ''Cats'', seoKeyword = lit ''cat care'', creatorInfo = []\<rparr>\<rparr>))
    = Some (generate_request
         \<lparr>topicTitle = lit ''Cats'', seoKeyword = lit ''cat care'', creatorInfo = []\<rparr>)"
  using blank_required_field_blocks_submission [of
      "initial_form\<lparr>formData :=
         \<lparr>topicTitle = lit ''  '', seoKeyword = lit ''cat care'', creatorInfo = []\<rparr>\<rparr>"
      False "FetchRejected None"]
    blank_required_field_blocks_submission [of
      "initial_form\<lparr>formData :=
         \<lparr>topicTitle = lit ''Cats'', seoKeyword = lit ''cat care'', creatorInfo = []\<rparr>\<rparr>"
      False "FetchRejected None"]
  by (simp add: lit_def isWhiteSpace_def)

text \<open>
  C4, as the code has it. A submission that passes validation issues
  \<^verbatim>\<open>POST http://localhost:5000/generate-content\<close> with a JSON body holding
  exactly \<^verbatim>\<open>topicTitle\<close>, \<^verbatim>\<open>seoKeyword\<close> and \<^verbatim>\<open>creatorInfo\<close>. When the
  response body parses to a JSON value other than \<^verbatim>\<open>null\<close>: an ok response
  has its \<^verbatim>\<open>script\<close>, \<^verbatim>\<open>description\<close> and \<^verbatim>\<open>tags\<close> stored in the
  displayed and in the editable copies; a response that is not ok has its
  \<^verbatim>\<open>error\<close> property, or \<^verbatim>\<open>Server error: \<close> and the status when that
  property is missing or empty, as the error message, and the stored content
  unchanged. In both cases the timer of the submission is no longer armed.
\<close>

theorem handleSubmit_request_and_response:
  assumes "trim (topicTitle (formData st)) \<noteq> []" and "trim (seoKeyword (formData st)) \<noteq> []"
  shows "snd (handleSubmit slow outcome st) =
           Some \<lparr>request_url = ''http://localhost:5000/generate-content'',
                 request_method = ''POST'',
                 request_contentType = ''application/json'',
                 request_body = [(''topicTitle'', topicTitle (formData st)),
                                 (''seoKeyword'', seoKeyword (formData st)),
                                 (''creatorInfo'', creatorInfo (formData st))]\<rparr>
         \<and> (outcome = FetchResponse status (JsonData d) \<and> response_ok status \<longrightarrow>
               generated_content (fst (handleSubmit slow outcome st)) =
                 [data_script d, data_script d, data_description d, data_description d,
                  data_tags d, data_tags d]
               \<and> armedTimeouts (fst (handleSubmit slow outcome st)) = armedTimeouts st)
         \<and> (outcome = FetchResponse status (JsonData d) \<and> \<not> response_ok status \<longrightarrow>
               errorMessage (fst (handleSubmit slow outcome st)) =
                 (case data_error d of
                    Some e \<Rightarrow> if e = [] then lit (''Server error: '' @ toString status) else e
                  | None \<Rightarrow> lit (''Server error: '' @ toString status))
               \<and> generated_content (fst (handleSubmit slow outcome st)) = generated_content st
               \<and> armedTimeouts (fst (handleSubmit slow outcome st)) = armedTimeouts st)"
  unfolding handleSubmit_valid[OF assms]
  by (auto simp add: Let_def generate_request_def stringify_formData_def server_error_text_def
      submit_failed_def generated_content_def clearTimeout_def)

theorem handleSubmit_request_and_response_witness:
  "generated_content (fst (handleSubmit False
       (FetchResponse 200 (JsonData \<lparr>data_script = Some (lit ''Hello''),
           data_description = Some (lit ''About''), data_tags = Some (lit ''a,b''),
           data_error = None\<rparr>))
       (initial_form\<lparr>formData :=
          \<lparr>topicTitle = lit ''Cats'', seoKeyword = lit ''cat care'', creatorInfo = []\<rparr>\<rparr>)))
     = [Some (lit ''Hello''), Some (lit ''Hello''), Some (lit ''About''), Some (lit ''About''),
        Some (lit ''a,b''), Some (lit ''a,b'')]
   \<and> errorMessage (fst (handleSubmit False
       (FetchResponse 503 (JsonData \<lparr>data_script = None, data_description = None,
           data_tags = None, data_error = None\<rparr>))
       (initial_form\<lparr>formData :=
          \<lparr>topicTitle = lit ''Cats'', seoKeyword = lit ''cat care'', creatorInfo = []\<rparr>\<rparr>)))
     = lit ''Server error: 503''
   \<and> armedTimeouts (fst (handleSubmit False
       (FetchResponse 503 (JsonData \<lparr>data_script = None, data_description = None,
           data_tags = None, data_error = None\<rparr>))
       (initial_form\<lparr>formData :=
          \<lparr>topicTitle = lit ''Cats'', seoKeyword = lit ''cat care'', creatorInfo = []\<rparr>\<rparr>)))
     = 0"
proof -
  let ?st = "initial_form\<lparr>formData :=
          \<lparr>topicTitle = lit ''Cats'', seoKeyword = lit ''cat care'', creatorInfo = []\<rparr>\<rparr>"
  have a: "trim (topicTitle (formData ?st)) \<noteq> []"
    by (simp add: trim_def isWhiteSpace_def lit_def)
  have b: "trim (seoKeyword (formData ?st)) \<noteq> []"
    by (simp add: trim_def isWhiteSpace_def lit_def)
  have t: "toString 503 = ''503''" by code_simp
  have z: "armedTimeouts ?st = 0" by (simp add: initial_form_def)
  show ?thesis
    using handleSubmit_request_and_response [OF a b, of False
        "FetchResponse 200 (JsonData \<lparr>data_script = Some (lit ''Hello''),
           data_description = Some (lit ''About''), data_tags = Some (lit ''a,b''),
           data_error = None\<rparr>)" 200
        "\<lparr>data_script = Some (lit ''Hello''), data_description = Some (lit ''About''),
           data_tags = Some (lit ''a,b''), data_error = None\<rparr>"]
      handleSubmit_request_and_response [OF a b, of False
        "FetchResponse 503 (JsonData \<lparr>data_script = None, data_description = None,
           data_tags = None, data_error = None\<rparr>)" 503
        "\<lparr>data_script = None, data_description = None, data_tags = None, data_error = None\<rparr>"]
    by (simp add: response_ok_def t z)
qed

text \<open>
  C4 as stated fails for a response that is not ok and whose body is not
  JSON: the error message is that of the parse error, not
  \<^verbatim>\<open>Server error: 500\<close>.
\<close>

theorem handleSubmit_unparsable_error_response:
  "errorMessage (fst (handleSubmit False
       (FetchResponse 500 (NotJson (lit ''Unexpected token < in JSON at position 0'')))
       (initial_form\<lparr>formData :=
          \<lparr>topicTitle = lit ''Cats'', seoKeyword = lit ''cat care'', creatorInfo = []\<rparr>\<rparr>)))
     = lit ''Unexpected token < in JSON at position 0''
   \<and> \<not> response_ok 500
   \<and> lit ''Unexpected token < in JSON at position 0'' \<noteq> lit ''Server error: 500''"
  by (simp add: handleSubmit_def Let_def submit_failed_def clearTimeout_def trim_def
      isWhiteSpace_def lit_def response_ok_def)

end
